theory Spec2Isabelle
  imports Complex_Main "HOL-Library.Word" "HOL-Library.Multiset"
begin

unbundle bit_operations_syntax

section \<open>JavaScript values used by the memory subsystem\<close>

text \<open>
  Exceptions are values. \<open>RangeError\<close> and \<open>TypeError\<close> are the ones the typed-array
  constructors of the runtime raise; \<open>Error msg\<close> is a \<^verbatim>\<open>throw new Error(msg)\<close> of the
  source or a failure raised by an external collaborator (store, model).
\<close>

datatype js_error = RangeError | TypeError | Error string

type_synonym byte = "8 word"

text \<open>
  An element of a \<^verbatim>\<open>Float32Array\<close> is its IEEE 754 binary32 bit pattern:
  bit 31 the sign, bits 30..23 the exponent, bits 22..0 the fraction.
\<close>

type_synonym float32 = "32 word"

definition exponent32 :: "float32 \<Rightarrow> nat" where
  "exponent32 w = unat (drop_bit 23 w AND 0xFF)"

definition fraction32 :: "float32 \<Rightarrow> nat" where
  "fraction32 w = unat (w AND 0x7FFFFF)"

definition isFinite32 :: "float32 \<Rightarrow> bool" where
  "isFinite32 w \<longleftrightarrow> exponent32 w \<noteq> 255"

definition isNaN32 :: "float32 \<Rightarrow> bool" where
  "isNaN32 w \<longleftrightarrow> exponent32 w = 255 \<and> fraction32 w \<noteq> 0"

section \<open>Vector codec: \<^verbatim>\<open>embeddingToBlob\<close> and \<^verbatim>\<open>blobToEmbedding\<close>\<close>

text \<open>
  A view on an \<^verbatim>\<open>ArrayBuffer\<close>: the bytes of the buffer, the offset of the view in
  it and the length of the view in bytes (the three properties the source reads).
\<close>

record arrayBufferView =
  buffer :: "byte list"
  byteOffset :: nat
  byteLength :: nat

text \<open>
  The argument of \<^verbatim>\<open>blobToEmbedding\<close> has type \<^verbatim>\<open>unknown\<close>; the source tells four
  cases apart: a \<^verbatim>\<open>Uint8Array\<close>, a bare \<^verbatim>\<open>ArrayBuffer\<close>, any other object that has
  the properties \<^verbatim>\<open>buffer\<close>, \<^verbatim>\<open>byteOffset\<close> and \<^verbatim>\<open>byteLength\<close>, and everything else.
\<close>

datatype blob =
    Uint8Array arrayBufferView
  | ArrayBuffer "byte list"
  | ViewObject arrayBufferView
  | OtherValue

text \<open>Native byte order is little-endian on every platform the application targets.\<close>

definition float32ToBytes :: "float32 \<Rightarrow> byte list" where
  "float32ToBytes w =
     [ucast w, ucast (drop_bit 8 w), ucast (drop_bit 16 w), ucast (drop_bit 24 w)]"

definition bytesToFloat32 :: "byte \<Rightarrow> byte \<Rightarrow> byte \<Rightarrow> byte \<Rightarrow> float32" where
  "bytesToFloat32 b0 b1 b2 b3 =
     ucast b0 OR push_bit 8 (ucast b1) OR push_bit 16 (ucast b2) OR push_bit 24 (ucast b3)"

text \<open>The elements of a \<^verbatim>\<open>Float32Array\<close> laid over a run of bytes, four bytes each.\<close>

fun readFloats :: "byte list \<Rightarrow> float32 list" where
  "readFloats (b0 # b1 # b2 # b3 # rest) = bytesToFloat32 b0 b1 b2 b3 # readFloats rest"
| "readFloats _ = []"

text \<open>
  \<^verbatim>\<open>new Float32Array(buffer, byteOffset, length)\<close>: the runtime raises a \<open>RangeError\<close>
  when the offset is not a multiple of the element size or when the view would run past
  the end of the buffer. A fractional \<^verbatim>\<open>length\<close> is truncated to an integer by the
  constructor, so the caller passes \<open>byteLength div 4\<close> for \<^verbatim>\<open>byteLength / 4\<close>.
\<close>

definition Float32Array_view :: "byte list \<Rightarrow> nat \<Rightarrow> nat \<Rightarrow> js_error + float32 list" where
  "Float32Array_view buf off n =
     (if off mod 4 \<noteq> 0 then Inl RangeError
      else if length buf < off + 4 * n then Inl RangeError
      else Inr (readFloats (take (4 * n) (drop off buf))))"

text \<open>
  \<^verbatim>\<open>new Float32Array(buffer)\<close>: the runtime raises a \<open>RangeError\<close> when the byte length
  of the buffer is not a multiple of the element size.
\<close>

definition Float32Array_buffer :: "byte list \<Rightarrow> js_error + float32 list" where
  "Float32Array_buffer buf =
     (if length buf mod 4 \<noteq> 0 then Inl RangeError else Inr (readFloats buf))"

fun blobToEmbedding :: "blob \<Rightarrow> js_error + float32 list" where
  "blobToEmbedding (Uint8Array b) =
     Float32Array_view (buffer b) (byteOffset b) (byteLength b div 4)"
| "blobToEmbedding (ArrayBuffer buf) = Float32Array_buffer buf"
| "blobToEmbedding (ViewObject b) =
     Float32Array_view (buffer b) (byteOffset b) (byteLength b div 4)"
| "blobToEmbedding OtherValue = Inl (Error ''Unsupported blob type'')"

text \<open>
  \<^verbatim>\<open>new Float32Array(embedding)\<close> on an array of numbers. The numbers are taken to be
  float32 values already (the embedding model produces such), so each one is stored
  unchanged; a NaN is stored as the quiet NaN of the runtime, whatever its payload.
\<close>

definition Float32Array_from :: "float32 list \<Rightarrow> float32 list" where
  "Float32Array_from xs = map (\<lambda>x. if isNaN32 x then 0x7FC00000 else x) xs"

text \<open>\<^verbatim>\<open>new Uint8Array(float32Array.buffer)\<close>: a view on the whole buffer.\<close>

definition embeddingToBlob :: "float32 list \<Rightarrow> arrayBufferView" where
  "embeddingToBlob embedding =
     (let float32Array = Float32Array_from embedding;
          buf = concat (map float32ToBytes float32Array)
      in \<lparr>buffer = buf, byteOffset = 0, byteLength = length buf\<rparr>)"

section \<open>Data model (\<^verbatim>\<open>database/types.ts\<close>) and the store\<close>

text \<open>
  Timestamps are milliseconds since the epoch. A column that may be \<^verbatim>\<open>NULL\<close> is an
  option. Field names follow the source; a prefix is added where two tables share a
  column name.
\<close>

record Note =
  n_id :: nat
  title :: string
  content :: string
  audioUri :: "string option"
  recallScript :: "string option"
  lastShownInReminisce :: "int option"
  createdAt :: int
  updatedAt :: int

record Tag =
  t_id :: nat
  t_name :: string

record Image =
  i_id :: nat
  i_noteId :: nat
  uri :: string
  description :: string

record NoteWithDetails = Note +
  tags :: "Tag list"
  images :: "Image list"

record note_embedding =
  ne_noteId :: nat
  ne_embedding :: blob
  ne_embeddingDimensions :: nat
  textHash :: string
  ne_status :: string
  ne_createdAt :: int

record image_embedding =
  ie_imageId :: nat
  ie_description :: string
  ie_embedding :: blob
  ie_embeddingDimensions :: nat
  descriptionHash :: string
  ie_status :: string
  ie_createdAt :: int

text \<open>
  The statements the modelled functions send to the store. The store is an external
  collaborator: any statement may fail, and \<open>failing\<close> says which ones do.
\<close>

datatype statement =
    SelectAllNotes
  | SelectNoteById
  | SelectTagsForNote
  | SelectImagesForNote
  | SelectNoteEmbeddingHash
  | UpdateNoteEmbedding
  | InsertNoteEmbedding
  | UpdateNoteEmbeddingStatus
  | SelectCompletedNoteEmbeddings
  | SelectCompletedImageEmbeddings

record database =
  notes_table :: "Note list"
  tags_table :: "Tag list"
  note_tags :: "(nat \<times> nat) list"
  images_table :: "Image list"
  note_embeddings :: "note_embedding list"
  image_embeddings :: "image_embedding list"
  failing :: "statement \<Rightarrow> bool"

definition getDatabaseInstance :: "database option \<Rightarrow> js_error + database" where
  "getDatabaseInstance dbInstance =
     (case dbInstance of
        None \<Rightarrow> Inl (Error ''Database not initialized. Call initializeDatabase() first.'')
      | Some db \<Rightarrow> Inr db)"

text \<open>A query: it fails when the store fails on that statement, else returns its rows.\<close>

definition query :: "database \<Rightarrow> statement \<Rightarrow> 'a list \<Rightarrow> js_error + 'a list" where
  "query db st rows = (if failing db st then Inl (Error ''store failure'') else Inr rows)"

definition getTagsForNote :: "database \<Rightarrow> nat \<Rightarrow> js_error + Tag list" where
  "getTagsForNote db noteId =
     query db SelectTagsForNote
       [t. t \<leftarrow> tags_table db, nt \<leftarrow> note_tags db, t_id t = snd nt \<and> fst nt = noteId]"

definition getImagesForNote :: "database \<Rightarrow> nat \<Rightarrow> js_error + Image list" where
  "getImagesForNote db noteId =
     query db SelectImagesForNote (filter (\<lambda>i. i_noteId i = noteId) (images_table db))"

definition buildNoteWithDetails :: "database \<Rightarrow> Note \<Rightarrow> js_error + NoteWithDetails" where
  "buildNoteWithDetails db n =
     (case getTagsForNote db (n_id n) of
        Inl e \<Rightarrow> Inl e
      | Inr ts \<Rightarrow>
          (case getImagesForNote db (n_id n) of
             Inl e \<Rightarrow> Inl e
           | Inr is \<Rightarrow> Inr (Note.extend n \<lparr>tags = ts, images = is\<rparr>)))"



text \<open>\<^verbatim>\<open>getNoteById\<close>: the first row with that id, or \<^verbatim>\<open>null\<close>.\<close>

definition getNoteById :: "database option \<Rightarrow> nat \<Rightarrow> js_error + NoteWithDetails option" where
  "getNoteById dbInstance ident =
     (case getDatabaseInstance dbInstance of
        Inl e \<Rightarrow> Inl e
      | Inr db \<Rightarrow>
          (case query db SelectNoteById (filter (\<lambda>n. n_id n = ident) (notes_table db)) of
             Inl e \<Rightarrow> Inl e
           | Inr [] \<Rightarrow> Inr None
           | Inr (n # _) \<Rightarrow>
               (case buildNoteWithDetails db n of Inl e \<Rightarrow> Inl e | Inr d \<Rightarrow> Inr (Some d))))"

section \<open>Memory selection scorer: \<^verbatim>\<open>selectReminisceNotes\<close>\<close>





text \<open>A string is truthy when it is neither \<^verbatim>\<open>null\<close> nor empty.\<close>

definition truthy :: "string option \<Rightarrow> bool" where
  "truthy s \<longleftrightarrow> (case s of None \<Rightarrow> False | Some t \<Rightarrow> t \<noteq> [])"


text \<open>
  \<^verbatim>\<open>array.sort((a, b) => b.score - a.score)\<close>: a stable sort, highest score first.
\<close>

definition sortByScoreDesc :: "('a \<Rightarrow> real) \<Rightarrow> 'a list \<Rightarrow> 'a list" where
  "sortByScoreDesc score xs = sort_key (\<lambda>x. - score x) xs"



text \<open>
  The two candidate notes of the specification's example, in a store: \<open>A\<close> has an image,
  is 10 days old, has 200 characters, was never shown and has a recall script; \<open>B\<close> has
  no image, is 1 day old, has 50 characters, was shown less than a day ago and has no
  recall script.
\<close>

definition exampleNow :: int where
  "exampleNow = 100 * 86400000"

definition exampleNoteA :: Note where
  "exampleNoteA =
     \<lparr>n_id = 11, title = ''A'', content = replicate 200 CHR ''a'', audioUri = None,
      recallScript = Some ''You walked along the shore.'', lastShownInReminisce = None,
      createdAt = 90 * 86400000, updatedAt = 90 * 86400000\<rparr>"

definition exampleNoteB :: Note where
  "exampleNoteB =
     \<lparr>n_id = 12, title = ''B'', content = replicate 50 CHR ''b'', audioUri = None,
      recallScript = None, lastShownInReminisce = Some (100 * 86400000 - 1000),
      createdAt = 99 * 86400000, updatedAt = 99 * 86400000\<rparr>"

definition exampleImage :: Image where
  "exampleImage = \<lparr>i_id = 21, i_noteId = 11, uri = ''file:///a.jpg'', description = []\<rparr>"

definition exampleDatabase :: database where
  "exampleDatabase =
     \<lparr>notes_table = [exampleNoteA, exampleNoteB], tags_table = [], note_tags = [],
      images_table = [exampleImage], note_embeddings = [], image_embeddings = [],
      failing = (\<lambda>_. False)\<rparr>"

definition exampleDetailsA :: NoteWithDetails where
  "exampleDetailsA = Note.extend exampleNoteA \<lparr>tags = [], images = [exampleImage]\<rparr>"


section \<open>The embedding capability and \<^verbatim>\<open>generateQueryEmbedding\<close>\<close>

text \<open>
  The embedding context of the model manager: \<^verbatim>\<open>embedding(text)\<close> either throws or
  returns a result whose \<^verbatim>\<open>embedding\<close> property is missing (\<open>None\<close>) or an array.
\<close>

type_synonym llamaContext = "string \<Rightarrow> js_error + float32 list option"

text \<open>
  \<^verbatim>\<open>String.prototype.trim\<close>: white space and line terminators are removed at both ends.
  The characters of a \<open>string\<close> are the code units below 256; among them the tab, the
  line feed, the vertical tab, the form feed, the carriage return, the space and the
  no-break space are removed.
\<close>

definition isWhiteSpace :: "char \<Rightarrow> bool" where
  "isWhiteSpace c \<longleftrightarrow>
     c \<in> set [CHR 0x09, CHR 0x0A, CHR 0x0B, CHR 0x0C, CHR 0x0D, CHR 0x20, CHR 0xA0]"

definition trim :: "string \<Rightarrow> string" where
  "trim s = rev (dropWhile isWhiteSpace (rev (dropWhile isWhiteSpace s)))"

text \<open>The body of the \<^verbatim>\<open>try\<close> block; \<open>Inr None\<close> is the result \<^verbatim>\<open>null\<close>.\<close>

definition generateQueryEmbedding_try ::
  "llamaContext option \<Rightarrow> string \<Rightarrow> js_error + (float32 list \<times> string) option" where
  "generateQueryEmbedding_try embeddingContext text =
     (case embeddingContext of
        None \<Rightarrow> Inr None
      | Some ctx \<Rightarrow>
          (let processedText = trim text
           in case ctx processedText of
                Inl e \<Rightarrow> Inl e
              | Inr None \<Rightarrow> Inr None
              | Inr (Some embedding) \<Rightarrow>
                  if length embedding = 0 then Inr None
                  else Inr (Some (Float32Array_from embedding, processedText))))"

definition generateQueryEmbedding ::
  "llamaContext option \<Rightarrow> string \<Rightarrow> js_error + (float32 list \<times> string) option" where
  "generateQueryEmbedding embeddingContext text =
     (case generateQueryEmbedding_try embeddingContext text of
        Inl error \<Rightarrow> Inr None
      | Inr result \<Rightarrow> Inr result)"

section \<open>Embedding generator: \<^verbatim>\<open>generateNoteTextEmbedding\<close>\<close>

fun join :: "string \<Rightarrow> string list \<Rightarrow> string" where
  "join sep [] = []"
| "join sep [x] = x"
| "join sep (x # y # ys) = x @ sep @ join sep (y # ys)"

definition combineNoteText :: "string \<Rightarrow> string \<Rightarrow> string list \<Rightarrow> string" where
  "combineNoteText title' content' tags' =
     (let tagString =
            (if length tags' > 0 then ''Tags: '' @ join '', '' tags' @ [CHR 0x0A, CHR 0x0A]
             else [])
      in tagString @ title' @ [CHR 0x0A, CHR 0x0A] @ content')"

text \<open>
  What a run does to the world outside: calls of the embedding model and statements
  that write to the store, in order.
\<close>

datatype effect = Inference string | Write statement nat

record run_state =
  db :: database
  effects :: "effect list"

text \<open>
  A writing statement on \<^verbatim>\<open>note_embeddings\<close>, keyed by \<^verbatim>\<open>noteId\<close>: it is recorded
  as sent; it changes the table unless the store fails on it.
\<close>

definition execute ::
  "statement \<Rightarrow> nat \<Rightarrow> (note_embedding list \<Rightarrow> js_error + note_embedding list) \<Rightarrow>
   run_state \<Rightarrow> (js_error + unit) \<times> run_state" where
  "execute st key change s =
     (let s' = s\<lparr>effects := effects s @ [Write st key]\<rparr>
      in if failing (db s) st then (Inl (Error ''store failure''), s')
         else (case change (note_embeddings (db s)) of
                 Inl e \<Rightarrow> (Inl e, s')
               | Inr rows \<Rightarrow> (Inr (), s'\<lparr>db := (db s)\<lparr>note_embeddings := rows\<rparr>\<rparr>)))"

definition updateWhere ::
  "nat \<Rightarrow> (note_embedding \<Rightarrow> note_embedding) \<Rightarrow> note_embedding list \<Rightarrow>
   js_error + note_embedding list" where
  "updateWhere noteId f rows = Inr (map (\<lambda>r. if ne_noteId r = noteId then f r else r) rows)"

text \<open>The column \<^verbatim>\<open>noteId\<close> is \<^verbatim>\<open>UNIQUE\<close>: a second row for a note is refused.\<close>

definition insertRow :: "note_embedding \<Rightarrow> note_embedding list \<Rightarrow> js_error + note_embedding list" where
  "insertRow r rows =
     (if ne_noteId r \<in> ne_noteId ` set rows then Inl (Error ''UNIQUE constraint failed'')
      else Inr (rows @ [r]))"

text \<open>
  The \<^verbatim>\<open>try\<close> block of \<^verbatim>\<open>generateNoteTextEmbedding\<close>. \<open>hashText\<close> is the SHA-256 digest
  of the platform's crypto library, a parameter here; \<open>now\<close> is \<^verbatim>\<open>Date.now()\<close>.
\<close>

definition generateNoteTextEmbedding_try ::
  "(string \<Rightarrow> string) \<Rightarrow> llamaContext option \<Rightarrow> int \<Rightarrow> nat \<Rightarrow> run_state \<Rightarrow>
   (js_error + unit) \<times> run_state" where
  "generateNoteTextEmbedding_try hashText embeddingContext now noteId s =
     (case getNoteById (Some (db s)) noteId of
        Inl e \<Rightarrow> (Inl e, s)
      | Inr None \<Rightarrow> (Inr (), s)
      | Inr (Some n) \<Rightarrow>
          (let tagNames = map t_name (tags n);
               combinedText = combineNoteText (title n) (content n) tagNames;
               hash = hashText combinedText
           in case query (db s) SelectNoteEmbeddingHash
                     (filter (\<lambda>r. ne_noteId r = noteId) (note_embeddings (db s))) of
                Inl e \<Rightarrow> (Inl e, s)
              | Inr existing \<Rightarrow>
                  if length existing > 0 \<and> textHash (hd existing) = hash then (Inr (), s)
                  else
                    (case embeddingContext of
                       None \<Rightarrow> (Inl (Error ''Embedding context not available''), s)
                     | Some ctx \<Rightarrow>
                         (let s1 = s\<lparr>effects := effects s @ [Inference combinedText]\<rparr>
                          in case ctx combinedText of
                               Inl e \<Rightarrow> (Inl e, s1)
                             | Inr None \<Rightarrow> (Inl (Error ''Empty embedding returned''), s1)
                             | Inr (Some embedding) \<Rightarrow>
                                 if length embedding = 0
                                 then (Inl (Error ''Empty embedding returned''), s1)
                                 else
                                   (let embeddingBlob = Uint8Array (embeddingToBlob embedding)
                                    in if length existing > 0
                                       then execute UpdateNoteEmbedding noteId
                                              (updateWhere noteId
                                                 (\<lambda>r. r\<lparr>ne_embedding := embeddingBlob,
                                                        ne_embeddingDimensions := length embedding,
                                                        textHash := hash,
                                                        ne_status := ''completed'',
                                                        ne_createdAt := now\<rparr>)) s1
                                       else execute InsertNoteEmbedding noteId
                                              (insertRow
                                                 \<lparr>ne_noteId = noteId,
                                                  ne_embedding = embeddingBlob,
                                                  ne_embeddingDimensions = length embedding,
                                                  textHash = hash,
                                                  ne_status = ''completed'',
                                                  ne_createdAt = now\<rparr>) s1)))))"

text \<open>
  \<^verbatim>\<open>generateNoteTextEmbedding\<close>: \<^verbatim>\<open>getDatabaseInstance()\<close> is called before the
  \<^verbatim>\<open>try\<close> block, so its failure reaches the caller. A failure inside the block is
  answered by setting the status of the note's row to \<^verbatim>\<open>failed\<close>; a failure of that
  statement is ignored. The result is the store and the effects of the run.
\<close>

definition generateNoteTextEmbedding ::
  "(string \<Rightarrow> string) \<Rightarrow> llamaContext option \<Rightarrow> int \<Rightarrow> database option \<Rightarrow> nat \<Rightarrow>
   js_error + run_state" where
  "generateNoteTextEmbedding hashText embeddingContext now dbInstance noteId =
     (case getDatabaseInstance dbInstance of
        Inl e \<Rightarrow> Inl e
      | Inr d \<Rightarrow>
          (case generateNoteTextEmbedding_try hashText embeddingContext now noteId
                  \<lparr>db = d, effects = []\<rparr> of
             (Inr _, s) \<Rightarrow> Inr s
           | (Inl error, s) \<Rightarrow>
               (case execute UpdateNoteEmbeddingStatus noteId
                       (updateWhere noteId (\<lambda>r. r\<lparr>ne_status := ''failed''\<rparr>)) s of
                  (_, s') \<Rightarrow> Inr s')))"

text \<open>
  Example stores for the embedding generator: note \<open>A\<close> with an embedding record whose
  fingerprint is current, and with one whose fingerprint is stale. The digest of the
  examples only marks its argument.
\<close>

definition exampleHash :: "string \<Rightarrow> string" where
  "exampleHash t = ''sha256:'' @ t"

definition exampleText :: string where
  "exampleText = combineNoteText (title exampleNoteA) (content exampleNoteA) []"

definition exampleRecord :: "string \<Rightarrow> note_embedding" where
  "exampleRecord h =
     \<lparr>ne_noteId = 11, ne_embedding = Uint8Array (embeddingToBlob [0x3F800000, 0x40000000]),
      ne_embeddingDimensions = 2, textHash = h, ne_status = ''completed'',
      ne_createdAt = 95 * 86400000\<rparr>"

definition exampleStore :: "string \<Rightarrow> database" where
  "exampleStore h = exampleDatabase\<lparr>note_embeddings := [exampleRecord h]\<rparr>"

section \<open>Similarity retrieval engine: \<^verbatim>\<open>retrieveRelevantNotes\<close>\<close>

text \<open>
  A number of the runtime is a real or NaN (\<open>None\<close>). Arithmetic is exact on reals (the
  rounding of doubles is left out) and gives NaN as soon as an operand is NaN. The sums
  of products of float32 values computed here never overflow a double, and an infinite
  element always ends in a NaN similarity, so an infinite float32 is read as NaN.
\<close>

type_synonym number = "real option"

definition num_add :: "number \<Rightarrow> number \<Rightarrow> number" where
  "num_add a b = (case a of None \<Rightarrow> None | Some x \<Rightarrow> (case b of None \<Rightarrow> None | Some y \<Rightarrow> Some (x + y)))"

definition num_mul :: "number \<Rightarrow> number \<Rightarrow> number" where
  "num_mul a b = (case a of None \<Rightarrow> None | Some x \<Rightarrow> (case b of None \<Rightarrow> None | Some y \<Rightarrow> Some (x * y)))"

definition float32Value :: "float32 \<Rightarrow> number" where
  "float32Value w =
     (let e = exponent32 w;
          f = fraction32 w;
          magnitude =
            (if e = 0 then real f / 2 ^ 149
             else if e < 150 then real (2 ^ 23 + f) / 2 ^ (150 - e)
             else real (2 ^ 23 + f) * 2 ^ (e - 150))
      in if e = 255 then None
         else Some (if bit w 31 then - magnitude else magnitude))"

text \<open>
  The loop of \<^verbatim>\<open>cosineSimilarity\<close> runs over the indices of \<open>a\<close>; reading \<open>b\<close> past its
  end gives \<^verbatim>\<open>undefined\<close>, which is NaN in arithmetic.
\<close>

fun cosineLoop ::
  "number list \<Rightarrow> number list \<Rightarrow> number \<times> number \<times> number \<Rightarrow> number \<times> number \<times> number" where
  "cosineLoop [] b acc = acc"
| "cosineLoop (ai # a) b (dotProduct, normA, normB) =
     (let bi = (case b of [] \<Rightarrow> None | x # _ \<Rightarrow> x)
      in cosineLoop a (tl b)
           (num_add dotProduct (num_mul ai bi),
            num_add normA (num_mul ai ai),
            num_add normB (num_mul bi bi)))"

text \<open>
  The quotient: a zero denominator means a zero vector, whose dot product is 0 as well,
  and \<open>0 / 0\<close> is NaN.
\<close>

definition cosineSimilarity :: "float32 list \<Rightarrow> float32 list \<Rightarrow> number" where
  "cosineSimilarity a b =
     (case cosineLoop (map float32Value a) (map float32Value b) (Some 0, Some 0, Some 0) of
        (Some dotProduct, Some normA, Some normB) \<Rightarrow>
          if sqrt normA * sqrt normB = 0 then None
          else Some (dotProduct / (sqrt normA * sqrt normB))
      | _ \<Rightarrow> None)"

datatype matchType = TextMatch | ImageMatch

record noteMatch =
  score :: real
  matchType :: matchType

text \<open>
  The \<^verbatim>\<open>Map\<close> from note ids to best matches, as the list of its entries in insertion
  order. \<^verbatim>\<open>set\<close> on a key already present replaces the value in place.
\<close>

type_synonym noteMatches = "(nat \<times> noteMatch) list"

definition mapSet :: "nat \<Rightarrow> noteMatch \<Rightarrow> noteMatches \<Rightarrow> noteMatches" where
  "mapSet k v m =
     (if k \<in> fst ` set m then map (\<lambda>(k', v'). if k' = k then (k', v) else (k', v')) m
      else m @ [(k, v)])"

record RetrievedNote =
  r_noteId :: nat
  r_title :: string
  r_content :: string
  r_tags :: "string list"
  r_images :: "(string \<times> string) list"
  r_audioUri :: "string option"
  similarityScore :: real
  r_matchType :: matchType

definition SIMILARITY_THRESHOLD :: real where
  "SIMILARITY_THRESHOLD = 0.5"

definition RELATIVE_THRESHOLD :: real where
  "RELATIVE_THRESHOLD = 0.75"

text \<open>The two queries: rows of a note id and an embedding blob.\<close>

definition selectCompletedNoteEmbeddings :: "database \<Rightarrow> js_error + (nat \<times> blob) list" where
  "selectCompletedNoteEmbeddings d =
     query d SelectCompletedNoteEmbeddings
       [(ne_noteId r, ne_embedding r). r \<leftarrow> note_embeddings d, ne_status r = ''completed'']"

definition selectCompletedImageEmbeddings :: "database \<Rightarrow> js_error + (nat \<times> blob) list" where
  "selectCompletedImageEmbeddings d =
     query d SelectCompletedImageEmbeddings
       [(i_noteId i, ie_embedding ie).
          ie \<leftarrow> image_embeddings d, i \<leftarrow> images_table d,
          ie_imageId ie = i_id i \<and> ie_status ie = ''completed'']"

text \<open>
  The similarity of a stored row to the query; \<open>Inl\<close> when the blob cannot be decoded.
\<close>

definition rowSimilarity :: "float32 list \<Rightarrow> blob \<Rightarrow> js_error + number" where
  "rowSimilarity queryEmbedding embeddingBlob =
     (case blobToEmbedding embeddingBlob of
        Inl e \<Rightarrow> Inl e
      | Inr noteEmbedding \<Rightarrow> Inr (cosineSimilarity queryEmbedding noteEmbedding))"

text \<open>
  The rest of the loop body: a similarity at or above the floor replaces the entry of
  the note when there is none or when it is strictly higher. A comparison with NaN is
  false.
\<close>

definition considerMatch :: "matchType \<Rightarrow> nat \<Rightarrow> number \<Rightarrow> noteMatches \<Rightarrow> noteMatches" where
  "considerMatch t noteId similarity m =
     (case similarity of
        None \<Rightarrow> m
      | Some s \<Rightarrow>
          if s \<ge> SIMILARITY_THRESHOLD then
            (case map_of m noteId of
               None \<Rightarrow> mapSet noteId \<lparr>score = s, matchType = t\<rparr> m
             | Some existing \<Rightarrow>
                 if s > score existing then mapSet noteId \<lparr>score = s, matchType = t\<rparr> m
                 else m)
          else m)"

text \<open>One loop over the rows of a query; a row that raises is skipped.\<close>

fun processRows :: "matchType \<Rightarrow> float32 list \<Rightarrow> (nat \<times> blob) list \<Rightarrow> noteMatches \<Rightarrow> noteMatches" where
  "processRows t queryEmbedding [] m = m"
| "processRows t queryEmbedding ((noteId, embeddingBlob) # rows) m =
     processRows t queryEmbedding rows
       (case rowSimilarity queryEmbedding embeddingBlob of
          Inl error \<Rightarrow> m
        | Inr similarity \<Rightarrow> considerMatch t noteId similarity m)"

definition noteMatchesOf :: "float32 list \<Rightarrow> (nat \<times> blob) list \<Rightarrow> (nat \<times> blob) list \<Rightarrow> noteMatches" where
  "noteMatchesOf queryEmbedding noteRows imageRows =
     processRows ImageMatch queryEmbedding imageRows
       (processRows TextMatch queryEmbedding noteRows [])"

definition sortedMatches :: "noteMatches \<Rightarrow> noteMatches" where
  "sortedMatches m = sortByScoreDesc (\<lambda>entry. score (snd entry)) m"

text \<open>
  The relative filter: index 0 is always kept; another entry is kept when its score is
  at least the top score times the relative threshold.
\<close>

definition filteredMatches :: "noteMatches \<Rightarrow> noteMatches" where
  "filteredMatches sorted' =
     (if length sorted' > 0 then
        map snd
          (filter
             (\<lambda>(index, entry).
                index = 0 \<or> score (snd entry) \<ge> score (snd (sorted' ! 0)) * RELATIVE_THRESHOLD)
             (enumerate 0 sorted'))
      else [])"

text \<open>
  \<^verbatim>\<open>filteredMatches.slice(0, topK)\<close>; \<open>topK\<close> is a natural number (the call site passes
  the literal 3, the default is 2).
\<close>

definition finalMatches ::
  "float32 list \<Rightarrow> (nat \<times> blob) list \<Rightarrow> (nat \<times> blob) list \<Rightarrow> nat \<Rightarrow> noteMatches" where
  "finalMatches queryEmbedding noteRows imageRows topK =
     take topK (filteredMatches (sortedMatches (noteMatchesOf queryEmbedding noteRows imageRows)))"

text \<open>
  Fetching the full note of a match: a missing note and a failure both give \<^verbatim>\<open>null\<close>
  (\<open>None\<close>), which is filtered out of the result.
\<close>

definition hydrate :: "database option \<Rightarrow> nat \<times> noteMatch \<Rightarrow> RetrievedNote option" where
  "hydrate dbInstance entry =
     (case getNoteById dbInstance (fst entry) of
        Inl error \<Rightarrow> None
      | Inr None \<Rightarrow> None
      | Inr (Some n) \<Rightarrow>
          Some \<lparr>r_noteId = n_id n,
                r_title = title n,
                r_content = content n,
                r_tags = map t_name (tags n),
                r_images = map (\<lambda>img. (uri img, description img)) (images n),
                r_audioUri = (if truthy (audioUri n) then audioUri n else None),
                similarityScore = score (snd entry),
                r_matchType = matchType (snd entry)\<rparr>)"

definition retrieveRelevantNotes_try ::
  "database option \<Rightarrow> float32 list \<Rightarrow> nat \<Rightarrow> js_error + RetrievedNote list" where
  "retrieveRelevantNotes_try dbInstance queryEmbedding topK =
     (case getDatabaseInstance dbInstance of
        Inl e \<Rightarrow> Inl e
      | Inr d \<Rightarrow>
          (case selectCompletedNoteEmbeddings d of
             Inl e \<Rightarrow> Inl e
           | Inr noteRows \<Rightarrow>
               (case selectCompletedImageEmbeddings d of
                  Inl e \<Rightarrow> Inl e
                | Inr imageRows \<Rightarrow>
                    Inr (List.map_filter (hydrate dbInstance)
                           (finalMatches queryEmbedding noteRows imageRows topK)))))"

definition retrieveRelevantNotes ::
  "database option \<Rightarrow> float32 list \<Rightarrow> nat \<Rightarrow> js_error + RetrievedNote list" where
  "retrieveRelevantNotes dbInstance queryEmbedding topK =
     (case retrieveRelevantNotes_try dbInstance queryEmbedding topK of
        Inl error \<Rightarrow> Inr []
      | Inr retrievedNotes \<Rightarrow> Inr retrievedNotes)"







text \<open>
  An example store for retrieval. Against the query \<open>(1, 0, 0, 0, 0)\<close> the text
  embeddings of the notes \<open>A\<close>, \<open>B\<close> and \<open>C\<close> have the cosine similarities 0.82, 0.55
  and 0.20, and the embedding of the image of \<open>A\<close> has 0.6. The vectors have small
  integer elements, written as float32 bit patterns.
\<close>

definition exampleNoteC :: Note where
  "exampleNoteC =
     \<lparr>n_id = 13, title = ''C'', content = ''A short note.'', audioUri = None,
      recallScript = None, lastShownInReminisce = None,
      createdAt = 98 * 86400000, updatedAt = 98 * 86400000\<rparr>"

definition exampleQuery :: "float32 list" where
  "exampleQuery = [0x3F800000, 0, 0, 0, 0]"

definition exampleVectorA :: "float32 list" where
  "exampleVectorA = [0x42240000, 0x41D80000, 0x41100000, 0x40400000, 0]"

definition exampleVectorB :: "float32 list" where
  "exampleVectorB = [0x41300000, 0x41700000, 0x40E00000, 0x40000000, 0x3F800000]"

definition exampleVectorC :: "float32 list" where
  "exampleVectorC = [0x3F800000, 0x40800000, 0x40000000, 0x40000000, 0]"

definition exampleVectorImage :: "float32 list" where
  "exampleVectorImage = [0x40400000, 0x40800000, 0, 0, 0]"

definition completedRecord :: "nat \<Rightarrow> blob \<Rightarrow> note_embedding" where
  "completedRecord noteId b =
     \<lparr>ne_noteId = noteId, ne_embedding = b, ne_embeddingDimensions = 5, textHash = ''h'',
      ne_status = ''completed'', ne_createdAt = 99 * 86400000\<rparr>"

definition exampleImageRecord :: image_embedding where
  "exampleImageRecord =
     \<lparr>ie_imageId = 21, ie_description = ''On the beach'',
      ie_embedding = Uint8Array (embeddingToBlob exampleVectorImage),
      ie_embeddingDimensions = 5, descriptionHash = ''h'', ie_status = ''completed'',
      ie_createdAt = 99 * 86400000\<rparr>"

definition exampleRecords :: "note_embedding list" where
  "exampleRecords =
     [completedRecord 13 (Uint8Array (embeddingToBlob exampleVectorC)),
      completedRecord 12 (ArrayBuffer (buffer (embeddingToBlob exampleVectorB))),
      completedRecord 11 (Uint8Array (embeddingToBlob exampleVectorA))]"

definition exampleMalformedRecord :: note_embedding where
  "exampleMalformedRecord = completedRecord 14 (ArrayBuffer [0x00, 0x00, 0x80])"

definition exampleRetrievalStore :: "note_embedding list \<Rightarrow> database" where
  "exampleRetrievalStore records =
     exampleDatabase
       \<lparr>notes_table := [exampleNoteA, exampleNoteB, exampleNoteC],
        note_embeddings := records,
        image_embeddings := [exampleImageRecord]\<rparr>"

definition exampleRetrieved :: RetrievedNote where
  "exampleRetrieved =
     \<lparr>r_noteId = 11, r_title = ''A'', r_content = replicate 200 CHR ''a'', r_tags = [],
      r_images = [(''file:///a.jpg'', [])], r_audioUri = None,
      similarityScore = 0.82, r_matchType = TextMatch\<rparr>"



section \<open>Debounced schedulers and the triggers of \<^verbatim>\<open>createNote\<close> and \<^verbatim>\<open>updateNote\<close>\<close>

text \<open>
  The module variables of the two schedulers and the event loop that runs their
  timers. Time is in milliseconds. A timer is its due time. \<open>running\<close> holds the calls of
  \<^verbatim>\<open>processNoteEmbeddings\<close> that wait for the store and the model: the time at which
  the call resolves, the note, and whether \<^verbatim>\<open>processRecallScript\<close> is chained to it
  with \<^verbatim>\<open>then\<close>. \<open>history\<close> records, with their times, the timer callbacks (with the
  ids they drained) and the calls and resolutions of the two pipelines.
\<close>

datatype event =
    EmbeddingTimerFired "nat list"
  | ScriptTimerFired "nat list"
  | ProcessNoteEmbeddingsCalled nat
  | ProcessNoteEmbeddingsResolved nat
  | ProcessRecallScriptCalled nat

record runtime =
  clock :: nat
  pendingNotes :: "nat list"
  updateTimer :: "nat option"
  pendingScriptNotes :: "nat list"
  scriptUpdateTimer :: "nat option"
  running :: "(nat \<times> nat \<times> bool) list"
  history :: "(nat \<times> event) list"

text \<open>
  What the pipelines find when they run: whether the models are loaded, which notes
  \<^verbatim>\<open>getNoteById\<close> finds, and how long a run of \<^verbatim>\<open>processNoteEmbeddings\<close> that does its
  work takes.
\<close>

record environment =
  embeddingReady :: bool
  recallReady :: bool
  noteExists :: "nat \<Rightarrow> bool"
  embeddingMs :: nat

definition initialRuntime :: runtime where
  "initialRuntime =
     \<lparr>clock = 0, pendingNotes = [], updateTimer = None, pendingScriptNotes = [],
      scriptUpdateTimer = None, running = [], history = []\<rparr>"

text \<open>\<^verbatim>\<open>Set.prototype.add\<close>: a new element goes to the end, a present one stays.\<close>

definition setAdd :: "nat \<Rightarrow> nat list \<Rightarrow> nat list" where
  "setAdd x xs = (if x \<in> set xs then xs else xs @ [x])"

definition record_event :: "event \<Rightarrow> runtime \<Rightarrow> runtime" where
  "record_event e r = r\<lparr>history := history r @ [(clock r, e)]\<rparr>"

text \<open>
  \<^verbatim>\<open>processRecallScript(noteId)\<close> is called: the script pipeline of the note starts.
\<close>

definition processRecallScript :: "nat \<Rightarrow> runtime \<Rightarrow> runtime" where
  "processRecallScript noteId r = record_event (ProcessRecallScriptCalled noteId) r"

text \<open>
  \<^verbatim>\<open>processNoteEmbeddings(noteId)\<close> is called, with or without a chained
  \<^verbatim>\<open>processRecallScript\<close>. When the embedding model is not ready or the note is not
  found it returns at once, and a chained call runs at once. Otherwise it starts its
  tasks and resolves \<open>embeddingMs\<close> later.
\<close>

definition processNoteEmbeddings :: "environment \<Rightarrow> bool \<Rightarrow> nat \<Rightarrow> runtime \<Rightarrow> runtime" where
  "processNoteEmbeddings env chained noteId r =
     (let r1 = record_event (ProcessNoteEmbeddingsCalled noteId) r
      in if embeddingReady env \<and> noteExists env noteId
         then r1\<lparr>running := running r1 @ [(clock r1 + embeddingMs env, noteId, chained)]\<rparr>
         else
           (let r2 = record_event (ProcessNoteEmbeddingsResolved noteId) r1
            in if chained then processRecallScript noteId r2 else r2))"

text \<open>The two schedulers: the timer is armed only when none is armed.\<close>

definition updateNoteEmbeddings :: "nat \<Rightarrow> runtime \<Rightarrow> runtime" where
  "updateNoteEmbeddings noteId r =
     (let r1 = r\<lparr>pendingNotes := setAdd noteId (pendingNotes r)\<rparr>
      in case updateTimer r1 of
           Some due \<Rightarrow> r1
         | None \<Rightarrow> r1\<lparr>updateTimer := Some (clock r1 + 300)\<rparr>)"

definition updateRecallScript :: "nat \<Rightarrow> runtime \<Rightarrow> runtime" where
  "updateRecallScript noteId r =
     (let r1 = r\<lparr>pendingScriptNotes := setAdd noteId (pendingScriptNotes r)\<rparr>
      in case scriptUpdateTimer r1 of
           Some due \<Rightarrow> r1
         | None \<Rightarrow> r1\<lparr>scriptUpdateTimer := Some (clock r1 + 300)\<rparr>)"

text \<open>
  The timer callbacks: the pending set is drained and the timer variable cleared; when
  the model is ready, the pipeline is called for every drained id whose note is found.
\<close>

definition embeddingTimerCallback :: "environment \<Rightarrow> runtime \<Rightarrow> runtime" where
  "embeddingTimerCallback env r =
     (let ids = pendingNotes r;
          r1 = record_event (EmbeddingTimerFired ids) (r\<lparr>pendingNotes := [], updateTimer := None\<rparr>)
      in if \<not> embeddingReady env then r1
         else foldl (\<lambda>s noteId. if noteExists env noteId
                                 then processNoteEmbeddings env False noteId s else s) r1 ids)"

definition scriptTimerCallback :: "environment \<Rightarrow> runtime \<Rightarrow> runtime" where
  "scriptTimerCallback env r =
     (let ids = pendingScriptNotes r;
          r1 = record_event (ScriptTimerFired ids)
                 (r\<lparr>pendingScriptNotes := [], scriptUpdateTimer := None\<rparr>)
      in if \<not> recallReady env then r1
         else foldl (\<lambda>s noteId. if noteExists env noteId
                                 then processRecallScript noteId s else s) r1 ids)"

text \<open>
  The calls made after the transaction of a save has committed.
  \<^verbatim>\<open>createNote\<close>: \<^verbatim>\<open>processNoteEmbeddings(noteId).then(() => processRecallScript(noteId))\<close>.
  \<^verbatim>\<open>updateNote\<close>: \<^verbatim>\<open>updateNoteEmbeddings(id).then(() => updateRecallScript(id))\<close>; the
  promise of \<^verbatim>\<open>updateNoteEmbeddings\<close> resolves when the function returns, that is as
  soon as the id is pending and the timer armed, so the chained call follows at once.
\<close>

definition createNote_trigger :: "environment \<Rightarrow> nat \<Rightarrow> runtime \<Rightarrow> runtime" where
  "createNote_trigger env noteId r = processNoteEmbeddings env True noteId r"

definition updateNote_trigger :: "nat \<Rightarrow> runtime \<Rightarrow> runtime" where
  "updateNote_trigger noteId r = updateRecallScript noteId (updateNoteEmbeddings noteId r)"

text \<open>
  The event loop. What is due next is the earliest of the armed timers and the
  resolutions in flight; at equal times the embedding timer comes before the script
  timer (an update arms it first) and timers come before resolutions.
\<close>

datatype due = DueEmbeddingTimer | DueScriptTimer | DueResolution nat bool

definition candidates :: "runtime \<Rightarrow> (nat \<times> due) list" where
  "candidates r =
     (case updateTimer r of None \<Rightarrow> [] | Some t \<Rightarrow> [(t, DueEmbeddingTimer)])
     @ (case scriptUpdateTimer r of None \<Rightarrow> [] | Some t \<Rightarrow> [(t, DueScriptTimer)])
     @ map (\<lambda>(t, noteId, chained). (t, DueResolution noteId chained)) (running r)"

definition nextDue :: "runtime \<Rightarrow> (nat \<times> due) option" where
  "nextDue r = (case candidates r of [] \<Rightarrow> None | c # cs \<Rightarrow> Some (arg_min_list fst (c # cs)))"

definition fire :: "environment \<Rightarrow> nat \<Rightarrow> due \<Rightarrow> runtime \<Rightarrow> runtime" where
  "fire env t d r =
     (let r1 = r\<lparr>clock := max (clock r) t\<rparr>
      in case d of
           DueEmbeddingTimer \<Rightarrow> embeddingTimerCallback env r1
         | DueScriptTimer \<Rightarrow> scriptTimerCallback env r1
         | DueResolution noteId chained \<Rightarrow>
             (let r2 = record_event (ProcessNoteEmbeddingsResolved noteId)
                         (r1\<lparr>running := remove1 (t, noteId, chained) (running r1)\<rparr>)
              in if chained then processRecallScript noteId r2 else r2))"

definition outstanding :: "runtime \<Rightarrow> nat" where
  "outstanding r =
     (case updateTimer r of None \<Rightarrow> 0 | Some t \<Rightarrow> 1 + length (pendingNotes r))
     + (case scriptUpdateTimer r of None \<Rightarrow> 0 | Some t \<Rightarrow> 1)
     + length (running r)"

text \<open>
  Running the loop up to time \<open>t\<close>: whatever is due by then is run, earliest first, and
  the clock moves on to \<open>t\<close>. A step never adds more than it removes from what is
  outstanding, so \<open>outstanding r\<close> steps are enough (lemma \<open>runUntil_complete\<close>).
\<close>

primrec settle :: "environment \<Rightarrow> nat \<Rightarrow> nat \<Rightarrow> runtime \<Rightarrow> runtime" where
  "settle env 0 t r = r"
| "settle env (Suc fuel) t r =
     (case nextDue r of
        None \<Rightarrow> r
      | Some (dueTime, item) \<Rightarrow>
          if dueTime \<le> t then settle env fuel t (fire env dueTime item r) else r)"

definition runUntil :: "environment \<Rightarrow> nat \<Rightarrow> runtime \<Rightarrow> runtime" where
  "runUntil env t r =
     (let r' = settle env (outstanding r) t r in r'\<lparr>clock := max (clock r') t\<rparr>)"

text \<open>Calls from the application, each at a time.\<close>

datatype call =
    UpdateNoteEmbeddings nat
  | UpdateRecallScript nat
  | UpdateNote nat
  | CreateNote nat

fun perform :: "environment \<Rightarrow> call \<Rightarrow> runtime \<Rightarrow> runtime" where
  "perform env (UpdateNoteEmbeddings noteId) r = updateNoteEmbeddings noteId r"
| "perform env (UpdateRecallScript noteId) r = updateRecallScript noteId r"
| "perform env (UpdateNote noteId) r = updateNote_trigger noteId r"
| "perform env (CreateNote noteId) r = createNote_trigger env noteId r"

fun run :: "environment \<Rightarrow> (nat \<times> call) list \<Rightarrow> runtime \<Rightarrow> runtime" where
  "run env [] r = r"
| "run env ((t, c) # calls) r = run env calls (perform env c (runUntil env t r))"


text \<open>
  The example of an update: both models are loaded, note 11 exists and its embedding
  run takes two seconds.
\<close>

definition exampleEnvironment :: environment where
  "exampleEnvironment =
     \<lparr>embeddingReady = True, recallReady = True, noteExists = (\<lambda>n. n = 11),
      embeddingMs = 2000\<rparr>"

section \<open>Properties of the vector codec\<close>

lemma bytesToFloat32_float32ToBytes:
  "bytesToFloat32 (ucast w) (ucast (drop_bit 8 w)) (ucast (drop_bit 16 w))
     (ucast (drop_bit 24 w)) = (w :: float32)"
  unfolding bytesToFloat32_def
proof (rule bit_word_eqI)
  fix n assume n: "n < LENGTH(32)"
  have a: "n < 8 \<or> (8 \<le> n \<and> n - 8 < 8) \<or> (16 \<le> n \<and> n - 16 < 8) \<or> (24 \<le> n \<and> n - 24 < 8)"
    using n by auto
  show "bit (ucast (ucast w :: byte) OR push_bit 8 (ucast (ucast (drop_bit 8 w) :: byte)) OR
          push_bit 16 (ucast (ucast (drop_bit 16 w) :: byte)) OR
          push_bit 24 (ucast (ucast (drop_bit 24 w) :: byte)) :: 32 word) n = bit w n"
    using n a by (auto simp add: bit_simps)
qed

lemma readFloats_bytes_append:
  "readFloats (float32ToBytes w @ bs) = w # readFloats bs"
  by (simp add: float32ToBytes_def bytesToFloat32_float32ToBytes)

lemma readFloats_concat: "readFloats (concat (map float32ToBytes v)) = v"
  by (induction v) (simp_all add: readFloats_bytes_append del: append.simps)

lemma length_float32ToBytes: "length (float32ToBytes w) = 4"
  by (simp add: float32ToBytes_def)

lemma length_concat_bytes: "length (concat (map float32ToBytes v)) = 4 * length v"
  by (induction v) (simp_all add: length_float32ToBytes)

lemma length_readFloats: "length (readFloats bs) = length bs div 4"
  by (induction bs rule: readFloats.induct) simp_all

lemma Float32Array_from_finite:
  "\<forall>x\<in>set v. isFinite32 x \<Longrightarrow> Float32Array_from v = v"
  by (induction v) (simp_all add: Float32Array_from_def isFinite32_def isNaN32_def)

text \<open>
  C4: for every finite-valued float32 vector \<open>v\<close>, decoding the encoded storage blob
  returns \<open>v\<close> exactly, the blob holding 4 bytes per element in native byte order. The
  blob decodes to \<open>v\<close> both as the \<^verbatim>\<open>Uint8Array\<close> that \<^verbatim>\<open>embeddingToBlob\<close> returns and
  as the bare buffer of its bytes.
\<close>

theorem blobToEmbedding_embeddingToBlob:
  assumes "\<forall>x\<in>set v. isFinite32 x"
  shows "blobToEmbedding (Uint8Array (embeddingToBlob v)) = Inr v
       \<and> blobToEmbedding (ArrayBuffer (buffer (embeddingToBlob v))) = Inr v
       \<and> byteLength (embeddingToBlob v) = 4 * length v
       \<and> buffer (embeddingToBlob v) = concat (map float32ToBytes v)"
proof -
  have f: "Float32Array_from v = v"
    using assms by (rule Float32Array_from_finite)
  have b: "embeddingToBlob v =
      \<lparr>buffer = concat (map float32ToBytes v), byteOffset = 0, byteLength = 4 * length v\<rparr>"
    by (simp add: embeddingToBlob_def f Let_def length_concat_bytes)
  have "blobToEmbedding (Uint8Array (embeddingToBlob v)) = Inr v"
    by (simp add: b Float32Array_view_def length_concat_bytes readFloats_concat)
  moreover have "blobToEmbedding (ArrayBuffer (buffer (embeddingToBlob v))) = Inr v"
    by (simp add: b Float32Array_buffer_def length_concat_bytes readFloats_concat)
  ultimately show ?thesis
    by (simp add: b)
qed

theorem blobToEmbedding_embeddingToBlob_witness:
  "isFinite32 0x3F800000 \<and> isFinite32 0xC0490FDB
   \<and> blobToEmbedding (Uint8Array (embeddingToBlob [0x3F800000, 0xC0490FDB])) =
       Inr [0x3F800000, 0xC0490FDB]
   \<and> buffer (embeddingToBlob [0x3F800000, 0xC0490FDB]) =
       [0x00, 0x00, 0x80, 0x3F, 0xDB, 0x0F, 0x49, 0xC0]"
proof -
  have h: "\<forall>x\<in>set [0x3F800000, 0xC0490FDB :: float32]. isFinite32 x"
    by (simp add: isFinite32_def exponent32_def)
  have c: "concat (map float32ToBytes [0x3F800000, 0xC0490FDB]) =
       [0x00, 0x00, 0x80, 0x3F, 0xDB, 0x0F, 0x49, 0xC0]"
    by (simp add: float32ToBytes_def)
  from blobToEmbedding_embeddingToBlob [OF h]
  have d: "blobToEmbedding (Uint8Array (embeddingToBlob [0x3F800000, 0xC0490FDB])) =
       Inr [0x3F800000, 0xC0490FDB]"
    and b: "buffer (embeddingToBlob [0x3F800000, 0xC0490FDB]) =
       concat (map float32ToBytes [0x3F800000, 0xC0490FDB])"
    by blast+
  have f: "isFinite32 0x3F800000" "isFinite32 0xC0490FDB"
    using h by simp_all
  show ?thesis
    by (intro conjI) (rule f(1), rule f(2), rule d, simp only: b c)
qed

text \<open>
  C3 as stated (decoding fails for every input whose byte length is not a multiple
  of 4) does not hold: a \<^verbatim>\<open>Uint8Array\<close> of five bytes decodes to one element, its last
  byte ignored.
\<close>

theorem blobToEmbedding_five_bytes_counterexample:
  "byteLength \<lparr>buffer = [0x00, 0x00, 0x80, 0x3F, 0xFF], byteOffset = 0, byteLength = 5\<rparr> mod 4 \<noteq> 0
   \<and> blobToEmbedding
       (Uint8Array \<lparr>buffer = [0x00, 0x00, 0x80, 0x3F, 0xFF], byteOffset = 0, byteLength = 5\<rparr>)
     = Inr [0x3F800000]"
  by (simp add: Float32Array_view_def bytesToFloat32_def)

text \<open>
  C3, amended: decoding a bare \<^verbatim>\<open>ArrayBuffer\<close> whose byte length is not a multiple of 4
  fails with a \<open>RangeError\<close>; decoding a \<^verbatim>\<open>Uint8Array\<close> (or another view object) whose
  byte length is not a multiple of 4, with an offset that is a multiple of 4 and inside
  its buffer, does not fail: it returns the \<open>byteLength div 4\<close> whole elements and ignores
  the trailing bytes.
\<close>

theorem blobToEmbedding_length_not_multiple_of_4:
  "(length buf mod 4 \<noteq> 0 \<longrightarrow> blobToEmbedding (ArrayBuffer buf) = Inl RangeError)
   \<and> (byteLength b mod 4 \<noteq> 0 \<and> byteOffset b mod 4 = 0
        \<and> byteOffset b + byteLength b \<le> length (buffer b) \<longrightarrow>
      (\<exists>v. blobToEmbedding (Uint8Array b) = Inr v \<and> blobToEmbedding (ViewObject b) = Inr v
          \<and> length v = byteLength b div 4
          \<and> v = readFloats (take (4 * (byteLength b div 4)) (drop (byteOffset b) (buffer b)))))"
proof -
  have "length (readFloats (take (4 * (byteLength b div 4)) (drop (byteOffset b) (buffer b))))
        = byteLength b div 4"
    if "byteOffset b + byteLength b \<le> length (buffer b)"
  proof -
    have "4 * (byteLength b div 4) \<le> length (buffer b) - byteOffset b"
      using that by simp
    then show ?thesis
      by (simp add: length_readFloats min_def)
  qed
  moreover have "\<not> length (buffer b) < byteOffset b + 4 * (byteLength b div 4)"
    if "byteOffset b + byteLength b \<le> length (buffer b)"
    using that by simp
  ultimately show ?thesis
    by (simp add: Float32Array_buffer_def Float32Array_view_def)
qed

theorem blobToEmbedding_length_not_multiple_of_4_witness:
  "length [0x00, 0x00, 0x80 :: byte] mod 4 \<noteq> 0
   \<and> blobToEmbedding (ArrayBuffer [0x00, 0x00, 0x80]) = Inl RangeError
   \<and> blobToEmbedding
       (ViewObject \<lparr>buffer = [0x00, 0x00, 0x80, 0x3F, 0xFF], byteOffset = 0, byteLength = 5\<rparr>)
     = Inr [0x3F800000]"
  using blobToEmbedding_length_not_multiple_of_4
    [of "[0x00, 0x00, 0x80]"
        "\<lparr>buffer = [0x00, 0x00, 0x80, 0x3F, 0xFF], byteOffset = 0, byteLength = 5\<rparr>"]
  by (simp add: bytesToFloat32_def)

section \<open>Properties of the memory selection scorer\<close>














section \<open>Properties of the query embedding\<close>

text \<open>
  C10: \<^verbatim>\<open>generateQueryEmbedding\<close> never throws. It returns \<^verbatim>\<open>null\<close> when the embedding
  context is unavailable, when the model returns a missing or empty embedding, and
  when the model call throws; otherwise it returns the embedding vector, as a
  \<^verbatim>\<open>Float32Array\<close>, together with the trimmed input text.
\<close>

theorem generateQueryEmbedding_total:
  "(\<exists>r. generateQueryEmbedding embeddingContext text = Inr r)
   \<and> (embeddingContext = None \<longrightarrow> generateQueryEmbedding embeddingContext text = Inr None)
   \<and> (\<forall>ctx. embeddingContext = Some ctx
          \<and> (ctx (trim text) = Inr None \<or> ctx (trim text) = Inr (Some [])
              \<or> (\<exists>e. ctx (trim text) = Inl e))
        \<longrightarrow> generateQueryEmbedding embeddingContext text = Inr None)
   \<and> (\<forall>ctx embedding. embeddingContext = Some ctx
          \<and> ctx (trim text) = Inr (Some embedding) \<and> embedding \<noteq> []
        \<longrightarrow> generateQueryEmbedding embeddingContext text =
              Inr (Some (Float32Array_from embedding, trim text)))"
  by (auto simp add: generateQueryEmbedding_def generateQueryEmbedding_try_def Let_def
      split: option.splits sum.splits)

lemma trim_example: "trim ''  beach trip '' = ''beach trip''"
  by (simp add: trim_def isWhiteSpace_def)

theorem generateQueryEmbedding_total_witness:
  "generateQueryEmbedding (Some (\<lambda>t. Inr (Some [0x3F800000, 0x40000000]))) ''  beach trip ''
     = Inr (Some ([0x3F800000, 0x40000000], ''beach trip''))
   \<and> generateQueryEmbedding (Some (\<lambda>t. Inl (Error ''model failure''))) ''  beach trip ''
     = Inr None
   \<and> generateQueryEmbedding None ''  beach trip '' = Inr None"
proof -
  have f: "Float32Array_from [0x3F800000, 0x40000000] = [0x3F800000, 0x40000000]"
    by (simp add: Float32Array_from_def isNaN32_def exponent32_def)
  have a: "generateQueryEmbedding (Some (\<lambda>t. Inr (Some [0x3F800000, 0x40000000])))
      ''  beach trip '' = Inr (Some ([0x3F800000, 0x40000000], ''beach trip''))"
    using generateQueryEmbedding_total
      [of "Some (\<lambda>t. Inr (Some [0x3F800000, 0x40000000]))" "''  beach trip ''"]
    by (simp add: f trim_example)
  have b: "generateQueryEmbedding (Some (\<lambda>t. Inl (Error ''model failure''))) ''  beach trip ''
     = Inr None"
    using generateQueryEmbedding_total
      [of "Some (\<lambda>t. Inl (Error ''model failure''))" "''  beach trip ''"]
    by simp
  have c: "generateQueryEmbedding None ''  beach trip '' = Inr None"
    using generateQueryEmbedding_total [of None "''  beach trip ''"] by simp
  show ?thesis
    using a b c by simp
qed

section \<open>Properties of the embedding generator\<close>

text \<open>
  C2: when the note is loaded and the fingerprint of its composed text (tags, title,
  content) equals the fingerprint stored in the note's embedding record,
  \<^verbatim>\<open>generateNoteTextEmbedding\<close> returns with no call of the embedding capability and
  no statement written to the store: the store is unchanged and the run has no effect.
\<close>

theorem generateNoteTextEmbedding_unchanged:
  assumes "getNoteById (Some d) noteId = Inr (Some n)"
    and "\<not> failing d SelectNoteEmbeddingHash"
    and "filter (\<lambda>r. ne_noteId r = noteId) (note_embeddings d) = row # others"
    and "textHash row = hashText (combineNoteText (title n) (content n) (map t_name (tags n)))"
  shows "generateNoteTextEmbedding hashText embeddingContext now (Some d) noteId =
           Inr \<lparr>db = d, effects = []\<rparr>"
  using assms
  by (simp add: generateNoteTextEmbedding_def generateNoteTextEmbedding_try_def
      getDatabaseInstance_def query_def Let_def)

text \<open>
  C5: when the embedding capability throws or returns no or an empty vector, no
  exception reaches the caller of \<^verbatim>\<open>generateNoteTextEmbedding\<close>; the only statement
  sent to the store sets the status of the note's record to \<^verbatim>\<open>failed\<close>, so an existing
  record keeps its vector and its hash, and no record is written when none exists. When
  the store fails on that statement the store is unchanged, and still no exception
  reaches the caller.
\<close>

theorem generateNoteTextEmbedding_failed:
  assumes "getNoteById (Some d) noteId = Inr (Some n)"
    and "\<not> failing d SelectNoteEmbeddingHash"
    and "combinedText = combineNoteText (title n) (content n) (map t_name (tags n))"
    and "\<forall>row\<in>set (note_embeddings d). ne_noteId row = noteId \<longrightarrow> textHash row \<noteq> hashText combinedText"
    and "ctx combinedText = Inr None \<or> ctx combinedText = Inr (Some [])
         \<or> (\<exists>e. ctx combinedText = Inl e)"
  shows "\<exists>s. generateNoteTextEmbedding hashText (Some ctx) now (Some d) noteId = Inr s
       \<and> effects s = [Inference combinedText, Write UpdateNoteEmbeddingStatus noteId]
       \<and> db s =
           (if failing d UpdateNoteEmbeddingStatus then d
            else d\<lparr>note_embeddings :=
                   map (\<lambda>r. if ne_noteId r = noteId then r\<lparr>ne_status := ''failed''\<rparr> else r)
                     (note_embeddings d)\<rparr>)
       \<and> (noteId \<notin> ne_noteId ` set (note_embeddings d) \<longrightarrow> db s = d)"
proof -
  let ?existing = "filter (\<lambda>r. ne_noteId r = noteId) (note_embeddings d)"
  have h: "\<not> (length ?existing > 0 \<and> textHash (hd ?existing) = hashText combinedText)"
  proof
    assume a: "length ?existing > 0 \<and> textHash (hd ?existing) = hashText combinedText"
    then have "?existing \<noteq> []" by auto
    then have m: "hd ?existing \<in> set ?existing" by (rule hd_in_set)
    have "\<forall>x\<in>set ?existing. x \<in> set (note_embeddings d) \<and> ne_noteId x = noteId"
      by simp
    with m have "hd ?existing \<in> set (note_embeddings d) \<and> ne_noteId (hd ?existing) = noteId"
      by blast
    with assms(4) a show False by blast
  qed
  have t: "generateNoteTextEmbedding_try hashText (Some ctx) now noteId \<lparr>db = d, effects = []\<rparr>
      = (Inl (case ctx combinedText of Inl e \<Rightarrow> e | Inr _ \<Rightarrow> Error ''Empty embedding returned''),
         \<lparr>db = d, effects = [Inference combinedText]\<rparr>)"
    using assms(1,2,5) h
    by (auto simp add: generateNoteTextEmbedding_try_def query_def Let_def
        assms(3) [symmetric])
  have u: "noteId \<notin> ne_noteId ` set rows \<Longrightarrow>
      map (\<lambda>r. if ne_noteId r = noteId then r\<lparr>ne_status := ''failed''\<rparr> else r) rows = rows"
    for rows
    by (induction rows) auto
  show ?thesis
    using u [of "note_embeddings d"]
    by (auto simp add: generateNoteTextEmbedding_def getDatabaseInstance_def t execute_def
        updateWhere_def Let_def)
qed


lemma example_getNoteById:
  "getNoteById (Some (exampleStore h)) 11 = Inr (Some exampleDetailsA)"
  by (simp add: getNoteById_def getDatabaseInstance_def query_def exampleStore_def
      exampleDatabase_def exampleNoteA_def exampleNoteB_def buildNoteWithDetails_def
      getTagsForNote_def getImagesForNote_def exampleImage_def exampleDetailsA_def)

lemma example_combined:
  "combineNoteText (title exampleDetailsA) (content exampleDetailsA)
     (map t_name (tags exampleDetailsA)) = exampleText"
  by (simp add: exampleText_def exampleDetailsA_def Note.defs NoteWithDetails.defs)

lemma example_store_simps:
  "failing (exampleStore h) st = False"
  "note_embeddings (exampleStore h) = [exampleRecord h]"
  "ne_noteId (exampleRecord h) = 11"
  "textHash (exampleRecord h) = h"
  by (simp_all add: exampleStore_def exampleDatabase_def exampleRecord_def)

theorem generateNoteTextEmbedding_unchanged_witness:
  "generateNoteTextEmbedding exampleHash (Some (\<lambda>t. Inr (Some [0x3F800000]))) exampleNow
     (Some (exampleStore (exampleHash exampleText))) 11
   = Inr \<lparr>db = exampleStore (exampleHash exampleText), effects = []\<rparr>"
proof -
  let ?d = "exampleStore (exampleHash exampleText)"
  have a: "\<not> failing ?d SelectNoteEmbeddingHash"
    by (simp add: example_store_simps)
  have b: "filter (\<lambda>r. ne_noteId r = 11) (note_embeddings ?d) =
      exampleRecord (exampleHash exampleText) # []"
    by (simp add: example_store_simps)
  have c: "textHash (exampleRecord (exampleHash exampleText)) =
      exampleHash (combineNoteText (title exampleDetailsA) (content exampleDetailsA)
        (map t_name (tags exampleDetailsA)))"
    by (simp only: example_store_simps example_combined)
  show ?thesis
    by (rule generateNoteTextEmbedding_unchanged
        [where hashText = exampleHash, OF example_getNoteById a b c])
qed

theorem generateNoteTextEmbedding_failed_witness:
  "generateNoteTextEmbedding exampleHash (Some (\<lambda>t. Inl (Error ''model failure''))) exampleNow
     (Some (exampleStore ''stale'')) 11
   = Inr \<lparr>db = (exampleStore ''stale'')
                \<lparr>note_embeddings := [(exampleRecord ''stale'')\<lparr>ne_status := ''failed''\<rparr>]\<rparr>,
          effects = [Inference exampleText, Write UpdateNoteEmbeddingStatus 11]\<rparr>"
proof -
  let ?d = "exampleStore ''stale''"
  let ?ctx = "\<lambda>t::string. Inl (Error ''model failure'') :: js_error + float32 list option"
  have a: "\<not> failing ?d SelectNoteEmbeddingHash"
    by (simp add: example_store_simps)
  have b: "\<forall>row\<in>set (note_embeddings ?d).
          ne_noteId row = 11 \<longrightarrow> textHash row \<noteq> exampleHash exampleText"
    by (simp add: example_store_simps exampleHash_def)
  have c: "?ctx exampleText = Inr None \<or> ?ctx exampleText = Inr (Some [])
         \<or> (\<exists>e. ?ctx exampleText = Inl e)"
    by simp
  from generateNoteTextEmbedding_failed
    [where hashText = exampleHash and now = exampleNow and ctx = ?ctx,
      OF example_getNoteById a example_combined [symmetric] b c]
  obtain s where
    "generateNoteTextEmbedding exampleHash (Some ?ctx) exampleNow (Some ?d) 11 = Inr s"
    "effects s = [Inference exampleText, Write UpdateNoteEmbeddingStatus 11]"
    "db s = ?d\<lparr>note_embeddings := [(exampleRecord ''stale'')\<lparr>ne_status := ''failed''\<rparr>]\<rparr>"
    by (auto simp add: example_store_simps)
  then show ?thesis
    by (cases s) simp
qed


section \<open>Properties of the similarity retrieval engine\<close>



























lemma filter_enumerate_Suc:
  "map snd (filter (\<lambda>(index, entry). index = 0 \<or> P entry) (enumerate (Suc k) xs)) = filter P xs"
  by (induction xs arbitrary: k) simp_all


lemma filteredMatches_Cons:
  "filteredMatches (topEntry # rest) =
     topEntry # filter (\<lambda>entry. score (snd topEntry) * RELATIVE_THRESHOLD \<le> score (snd entry)) rest"
  using filter_enumerate_Suc
    [of "\<lambda>entry. score (snd topEntry) * RELATIVE_THRESHOLD \<le> score (snd entry)" 0 rest]
  by (simp add: filteredMatches_def)















lemma float32Value_examples:
  "float32Value 0 = Some 0"
  "float32Value 0x3F800000 = Some 1"
  "float32Value 0x40000000 = Some 2"
  "float32Value 0x40400000 = Some 3"
  "float32Value 0x40800000 = Some 4"
  "float32Value 0x40E00000 = Some 7"
  "float32Value 0x41100000 = Some 9"
  "float32Value 0x41300000 = Some 11"
  "float32Value 0x41700000 = Some 15"
  "float32Value 0x41D80000 = Some 27"
  "float32Value 0x42240000 = Some 41"
  by (simp_all add: float32Value_def exponent32_def fraction32_def Let_def bit_iff_odd_drop_bit)

lemma sqrt_examples: "sqrt 2500 = 50" "sqrt 400 = 20" "sqrt 25 = 5"
  by (rule real_sqrt_unique; simp)+

lemma cosine_examples:
  "cosineSimilarity exampleQuery exampleVectorA = Some 0.82"
  "cosineSimilarity exampleQuery exampleVectorB = Some 0.55"
  "cosineSimilarity exampleQuery exampleVectorC = Some 0.2"
  "cosineSimilarity exampleQuery exampleVectorImage = Some 0.6"
  by (simp_all add: cosineSimilarity_def exampleQuery_def exampleVectorA_def exampleVectorB_def
      exampleVectorC_def exampleVectorImage_def float32Value_examples num_add_def num_mul_def
      sqrt_examples Let_def)


lemma decode_encode:
  "\<forall>x\<in>set v. isFinite32 x \<Longrightarrow> blobToEmbedding (Uint8Array (embeddingToBlob v)) = Inr v"
  "\<forall>x\<in>set v. isFinite32 x \<Longrightarrow> blobToEmbedding (ArrayBuffer (buffer (embeddingToBlob v))) = Inr v"
  by (simp_all add: embeddingToBlob_def Float32Array_from_finite Let_def length_concat_bytes
      Float32Array_view_def Float32Array_buffer_def readFloats_concat)

lemma example_finite:
  "\<forall>x\<in>set exampleVectorA. isFinite32 x" "\<forall>x\<in>set exampleVectorB. isFinite32 x"
  "\<forall>x\<in>set exampleVectorC. isFinite32 x" "\<forall>x\<in>set exampleVectorImage. isFinite32 x"
  by (simp_all add: exampleVectorA_def exampleVectorB_def exampleVectorC_def
      exampleVectorImage_def isFinite32_def exponent32_def)

lemma example_rowSimilarity:
  "rowSimilarity exampleQuery (Uint8Array (embeddingToBlob exampleVectorA)) = Inr (Some 0.82)"
  "rowSimilarity exampleQuery (ArrayBuffer (buffer (embeddingToBlob exampleVectorB))) = Inr (Some 0.55)"
  "rowSimilarity exampleQuery (Uint8Array (embeddingToBlob exampleVectorC)) = Inr (Some 0.2)"
  "rowSimilarity exampleQuery (Uint8Array (embeddingToBlob exampleVectorImage)) = Inr (Some 0.6)"
  by (simp_all add: rowSimilarity_def decode_encode example_finite cosine_examples
      del: blobToEmbedding.simps)

lemma example_malformed: "blobToEmbedding (ArrayBuffer [0x00, 0x00, 0x80]) = Inl RangeError"
  by (simp add: Float32Array_buffer_def)

lemma example_noteRows:
  "selectCompletedNoteEmbeddings (exampleRetrievalStore exampleRecords) =
     Inr [(13, Uint8Array (embeddingToBlob exampleVectorC)),
          (12, ArrayBuffer (buffer (embeddingToBlob exampleVectorB))),
          (11, Uint8Array (embeddingToBlob exampleVectorA))]"
  by (simp add: selectCompletedNoteEmbeddings_def query_def exampleRetrievalStore_def
      exampleDatabase_def exampleRecords_def completedRecord_def)

lemma example_imageRows:
  "selectCompletedImageEmbeddings (exampleRetrievalStore records) =
     Inr [(11, Uint8Array (embeddingToBlob exampleVectorImage))]"
  by (simp add: selectCompletedImageEmbeddings_def query_def exampleRetrievalStore_def
      exampleDatabase_def exampleImageRecord_def exampleImage_def)

lemma example_noteMatches:
  "noteMatchesOf exampleQuery
     [(13, Uint8Array (embeddingToBlob exampleVectorC)),
      (12, ArrayBuffer (buffer (embeddingToBlob exampleVectorB))),
      (11, Uint8Array (embeddingToBlob exampleVectorA))]
     [(11, Uint8Array (embeddingToBlob exampleVectorImage))]
   = [(12, \<lparr>score = 0.55, matchType = TextMatch\<rparr>), (11, \<lparr>score = 0.82, matchType = TextMatch\<rparr>)]"
  by (simp add: noteMatchesOf_def example_rowSimilarity considerMatch_def
      SIMILARITY_THRESHOLD_def mapSet_def)

lemma example_finalMatches:
  "finalMatches exampleQuery
     [(13, Uint8Array (embeddingToBlob exampleVectorC)),
      (12, ArrayBuffer (buffer (embeddingToBlob exampleVectorB))),
      (11, Uint8Array (embeddingToBlob exampleVectorA))]
     [(11, Uint8Array (embeddingToBlob exampleVectorImage))] 3
   = [(11, \<lparr>score = 0.82, matchType = TextMatch\<rparr>)]"
  by (simp add: finalMatches_def example_noteMatches sortedMatches_def sortByScoreDesc_def
      filteredMatches_Cons RELATIVE_THRESHOLD_def)

lemma example_hydrate:
  "hydrate (Some (exampleRetrievalStore records)) (11, \<lparr>score = 0.82, matchType = TextMatch\<rparr>)
     = Some exampleRetrieved"
  by (simp add: hydrate_def getNoteById_def getDatabaseInstance_def query_def
      exampleRetrievalStore_def exampleDatabase_def exampleNoteA_def exampleNoteB_def
      exampleNoteC_def buildNoteWithDetails_def getTagsForNote_def getImagesForNote_def
      exampleImage_def exampleRetrieved_def truthy_def Note.defs NoteWithDetails.defs)

lemma example_retrieve:
  "retrieveRelevantNotes (Some (exampleRetrievalStore exampleRecords)) exampleQuery 3
     = Inr [exampleRetrieved]"
  unfolding retrieveRelevantNotes_def retrieveRelevantNotes_try_def getDatabaseInstance_def
    option.case sum.case example_noteRows example_imageRows example_finalMatches
  by (simp only: map_filter_simps example_hydrate option.case)








lemma processRows_append:
  "processRows t q (xs @ ys) m = processRows t q ys (processRows t q xs m)"
  by (induction xs arbitrary: m) auto

lemma processRows_skip:
  assumes "blobToEmbedding b = Inl e"
  shows "processRows t q (xs @ (n, b) # ys) m = processRows t q (xs @ ys) m"
  using assms by (simp add: processRows_append rowSimilarity_def)

lemma buildNoteWithDetails_embeddings:
  "buildNoteWithDetails (d\<lparr>note_embeddings := rows\<rparr>) = buildNoteWithDetails d"
  "buildNoteWithDetails (d\<lparr>image_embeddings := irows\<rparr>) = buildNoteWithDetails d"
  by (simp_all add: fun_eq_iff buildNoteWithDetails_def getTagsForNote_def getImagesForNote_def
      query_def)

lemma getNoteById_embeddings:
  "getNoteById (Some (d\<lparr>note_embeddings := rows\<rparr>)) n = getNoteById (Some d) n"
  "getNoteById (Some (d\<lparr>image_embeddings := irows\<rparr>)) n = getNoteById (Some d) n"
  by (simp_all add: getNoteById_def getDatabaseInstance_def query_def
      buildNoteWithDetails_embeddings split: list.splits)

lemma hydrate_embeddings:
  "hydrate (Some (d\<lparr>note_embeddings := rows\<rparr>)) = hydrate (Some d)"
  "hydrate (Some (d\<lparr>image_embeddings := irows\<rparr>)) = hydrate (Some d)"
  by (simp_all add: fun_eq_iff hydrate_def getNoteById_embeddings)

lemma completedRows_append:
  "[(ne_noteId r, ne_embedding r). r \<leftarrow> xs @ ys, ne_status r = ''completed''] =
   [(ne_noteId r, ne_embedding r). r \<leftarrow> xs, ne_status r = ''completed''] @
   [(ne_noteId r, ne_embedding r). r \<leftarrow> ys, ne_status r = ''completed'']"
  by simp

lemma retrieve_malformed_note_row:
  assumes "note_embeddings d = before @ r # after"
    and "blobToEmbedding (ne_embedding r) = Inl e"
  shows "retrieveRelevantNotes (Some d) q topK =
         retrieveRelevantNotes (Some (d\<lparr>note_embeddings := before @ after\<rparr>)) q topK"
proof -
  let ?rows = "\<lambda>xs. [(ne_noteId r, ne_embedding r). r \<leftarrow> xs, ne_status r = ''completed'']"
  have "processRows TextMatch q (?rows (before @ r # after)) [] =
        processRows TextMatch q (?rows (before @ after)) []"
  proof (cases "ne_status r = ''completed''")
    case True
    then have "?rows (before @ r # after) = ?rows before @ (ne_noteId r, ne_embedding r) # ?rows after"
      by simp
    then show ?thesis
      using processRows_skip [OF assms(2), of TextMatch q "?rows before" "ne_noteId r" "?rows after" "[]"]
      by simp
  next
    case False
    then show ?thesis by simp
  qed
  then show ?thesis
    by (simp add: retrieveRelevantNotes_def retrieveRelevantNotes_try_def
        getDatabaseInstance_def selectCompletedNoteEmbeddings_def
        selectCompletedImageEmbeddings_def query_def finalMatches_def noteMatchesOf_def
        assms(1) hydrate_embeddings)
qed


lemma processRows_malformed:
  "\<forall>row\<in>set bad. \<exists>e. blobToEmbedding (snd row) = Inl e \<Longrightarrow> processRows t q bad m = m"
  by (induction bad) (auto simp add: rowSimilarity_def)

lemma retrieve_malformed_image_row:
  assumes "image_embeddings d = before @ r # after"
    and "blobToEmbedding (ie_embedding r) = Inl e"
  shows "retrieveRelevantNotes (Some d) q topK =
         retrieveRelevantNotes (Some (d\<lparr>image_embeddings := before @ after\<rparr>)) q topK"
proof -
  let ?rows = "\<lambda>xs. [(i_noteId i, ie_embedding ie).
          ie \<leftarrow> xs, i \<leftarrow> images_table d,
          ie_imageId ie = i_id i \<and> ie_status ie = ''completed'']"
  have split: "?rows (before @ r # after) = ?rows before @ ?rows [r] @ ?rows after"
    by simp
  have "\<forall>row\<in>set (?rows [r]). \<exists>e. blobToEmbedding (snd row) = Inl e"
    using assms(2) by auto
  then have "processRows ImageMatch q (?rows [r]) m = m" for m
    by (rule processRows_malformed)
  then have "processRows ImageMatch q (?rows (before @ r # after)) m =
        processRows ImageMatch q (?rows (before @ after)) m" for m
    unfolding split by (simp add: processRows_append)
  then show ?thesis
    by (simp add: retrieveRelevantNotes_def retrieveRelevantNotes_try_def
        getDatabaseInstance_def selectCompletedNoteEmbeddings_def
        selectCompletedImageEmbeddings_def query_def finalMatches_def noteMatchesOf_def
        assms(1) hydrate_embeddings)
qed

text \<open>
  C8: \<^verbatim>\<open>retrieveRelevantNotes\<close> never raises: every failure inside the call, such as a
  store that is not initialised or a query that fails, gives the empty list. A stored
  row whose blob cannot be decoded is skipped: the result is the one computed from the
  store without that row.
\<close>

theorem retrieveRelevantNotes_never_raises:
  "(\<exists>r. retrieveRelevantNotes dbInstance q topK = Inr r)
   \<and> (\<forall>e. retrieveRelevantNotes_try dbInstance q topK = Inl e
          \<longrightarrow> retrieveRelevantNotes dbInstance q topK = Inr [])
   \<and> (dbInstance = None \<longrightarrow> retrieveRelevantNotes dbInstance q topK = Inr [])
   \<and> (\<forall>d. dbInstance = Some d
          \<and> (failing d SelectCompletedNoteEmbeddings \<or> failing d SelectCompletedImageEmbeddings)
        \<longrightarrow> retrieveRelevantNotes dbInstance q topK = Inr [])
   \<and> (\<forall>d before r after e. dbInstance = Some d
          \<and> note_embeddings d = before @ r # after \<and> blobToEmbedding (ne_embedding r) = Inl e
        \<longrightarrow> retrieveRelevantNotes dbInstance q topK =
            retrieveRelevantNotes (Some (d\<lparr>note_embeddings := before @ after\<rparr>)) q topK)
   \<and> (\<forall>d before r after e. dbInstance = Some d
          \<and> image_embeddings d = before @ r # after \<and> blobToEmbedding (ie_embedding r) = Inl e
        \<longrightarrow> retrieveRelevantNotes dbInstance q topK =
            retrieveRelevantNotes (Some (d\<lparr>image_embeddings := before @ after\<rparr>)) q topK)"
proof (intro conjI allI impI)
  show "\<exists>r. retrieveRelevantNotes dbInstance q topK = Inr r"
    by (simp add: retrieveRelevantNotes_def split: sum.splits)
next
  fix e assume "retrieveRelevantNotes_try dbInstance q topK = Inl e"
  then show "retrieveRelevantNotes dbInstance q topK = Inr []"
    by (simp add: retrieveRelevantNotes_def)
next
  assume "dbInstance = None"
  then show "retrieveRelevantNotes dbInstance q topK = Inr []"
    by (simp add: retrieveRelevantNotes_def retrieveRelevantNotes_try_def getDatabaseInstance_def)
next
  fix d assume "dbInstance = Some d
    \<and> (failing d SelectCompletedNoteEmbeddings \<or> failing d SelectCompletedImageEmbeddings)"
  then show "retrieveRelevantNotes dbInstance q topK = Inr []"
    by (auto simp add: retrieveRelevantNotes_def retrieveRelevantNotes_try_def
        getDatabaseInstance_def selectCompletedNoteEmbeddings_def
        selectCompletedImageEmbeddings_def query_def)
next
  fix d before r after e
  assume "dbInstance = Some d
    \<and> note_embeddings d = before @ r # after \<and> blobToEmbedding (ne_embedding r) = Inl e"
  then show "retrieveRelevantNotes dbInstance q topK =
      retrieveRelevantNotes (Some (d\<lparr>note_embeddings := before @ after\<rparr>)) q topK"
    using retrieve_malformed_note_row by blast
next
  fix d before r after e
  assume "dbInstance = Some d
    \<and> image_embeddings d = before @ r # after \<and> blobToEmbedding (ie_embedding r) = Inl e"
  then show "retrieveRelevantNotes dbInstance q topK =
      retrieveRelevantNotes (Some (d\<lparr>image_embeddings := before @ after\<rparr>)) q topK"
    using retrieve_malformed_image_row by blast
qed

theorem retrieveRelevantNotes_never_raises_witness:
  "blobToEmbedding (ne_embedding exampleMalformedRecord) = Inl RangeError
   \<and> retrieveRelevantNotes (Some (exampleRetrievalStore (exampleMalformedRecord # exampleRecords)))
         exampleQuery 3 = Inr [exampleRetrieved]
   \<and> retrieveRelevantNotes None exampleQuery 3 = Inr []"
proof -
  let ?d = "exampleRetrievalStore (exampleMalformedRecord # exampleRecords)"
  note t = retrieveRelevantNotes_never_raises [of "Some ?d" exampleQuery 3]
  have m: "blobToEmbedding (ne_embedding exampleMalformedRecord) = Inl RangeError"
    by (simp add: exampleMalformedRecord_def completedRecord_def Float32Array_buffer_def)
  have n: "note_embeddings ?d = [] @ exampleMalformedRecord # exampleRecords"
    by (simp add: exampleRetrievalStore_def)
  have s: "?d\<lparr>note_embeddings := [] @ exampleRecords\<rparr> = exampleRetrievalStore exampleRecords"
    by (simp add: exampleRetrievalStore_def)
  from t m n have "retrieveRelevantNotes (Some ?d) exampleQuery 3 =
      retrieveRelevantNotes (Some (?d\<lparr>note_embeddings := [] @ exampleRecords\<rparr>)) exampleQuery 3"
    by blast
  then have r: "retrieveRelevantNotes (Some ?d) exampleQuery 3 = Inr [exampleRetrieved]"
    by (simp only: s example_retrieve)
  have e: "retrieveRelevantNotes None exampleQuery 3 = Inr []"
    using retrieveRelevantNotes_never_raises [of None exampleQuery 3] by blast
  show ?thesis
    by (intro conjI m r e)
qed


section \<open>Properties of the schedulers and the event loop\<close>

lemma record_event_fields [simp]:
  "clock (record_event e r) = clock r"
  "pendingNotes (record_event e r) = pendingNotes r"
  "updateTimer (record_event e r) = updateTimer r"
  "pendingScriptNotes (record_event e r) = pendingScriptNotes r"
  "scriptUpdateTimer (record_event e r) = scriptUpdateTimer r"
  "running (record_event e r) = running r"
  "history (record_event e r) = history r @ [(clock r, e)]"
  by (simp_all add: record_event_def)

lemma processRecallScript_fields [simp]:
  "clock (processRecallScript n r) = clock r"
  "pendingNotes (processRecallScript n r) = pendingNotes r"
  "updateTimer (processRecallScript n r) = updateTimer r"
  "pendingScriptNotes (processRecallScript n r) = pendingScriptNotes r"
  "scriptUpdateTimer (processRecallScript n r) = scriptUpdateTimer r"
  "running (processRecallScript n r) = running r"
  "history (processRecallScript n r) = history r @ [(clock r, ProcessRecallScriptCalled n)]"
  by (simp_all add: processRecallScript_def)

lemma processNoteEmbeddings_fields [simp]:
  "clock (processNoteEmbeddings env ch n r) = clock r"
  "pendingNotes (processNoteEmbeddings env ch n r) = pendingNotes r"
  "updateTimer (processNoteEmbeddings env ch n r) = updateTimer r"
  "pendingScriptNotes (processNoteEmbeddings env ch n r) = pendingScriptNotes r"
  "scriptUpdateTimer (processNoteEmbeddings env ch n r) = scriptUpdateTimer r"
  by (simp_all add: processNoteEmbeddings_def Let_def)

lemma processNoteEmbeddings_running:
  "running (processNoteEmbeddings env ch n r) =
     (if embeddingReady env \<and> noteExists env n
      then running r @ [(clock r + embeddingMs env, n, ch)] else running r)"
  by (simp add: processNoteEmbeddings_def Let_def)

lemma foldl_embeddings_fields:
  "updateTimer (foldl (\<lambda>s noteId. if noteExists env noteId
       then processNoteEmbeddings env False noteId s else s) r ids) = updateTimer r"
  "scriptUpdateTimer (foldl (\<lambda>s noteId. if noteExists env noteId
       then processNoteEmbeddings env False noteId s else s) r ids) = scriptUpdateTimer r"
  "pendingNotes (foldl (\<lambda>s noteId. if noteExists env noteId
       then processNoteEmbeddings env False noteId s else s) r ids) = pendingNotes r"
  "length (running (foldl (\<lambda>s noteId. if noteExists env noteId
       then processNoteEmbeddings env False noteId s else s) r ids))
     \<le> length (running r) + length ids"
proof (induction ids arbitrary: r)
  case Nil
  {
    case 1 show ?case by simp
  next
    case 2 show ?case by simp
  next
    case 3 show ?case by simp
  next
    case 4 show ?case by simp
  }
next
  case (Cons a ids)
  {
    case 1 show ?case by (simp add: Cons.IH(1))
  next
    case 2 show ?case by (simp add: Cons.IH(2))
  next
    case 3 show ?case by (simp add: Cons.IH(3))
  next
    case 4
    have "length (running (if noteExists env a then processNoteEmbeddings env False a r else r))
        \<le> length (running r) + 1"
      by (simp add: processNoteEmbeddings_running)
    with Cons.IH(4) [of "if noteExists env a then processNoteEmbeddings env False a r else r"]
    show ?case by simp
  }
qed

lemma foldl_script_fields:
  "updateTimer (foldl (\<lambda>s noteId. if noteExists env noteId
       then processRecallScript noteId s else s) r ids) = updateTimer r"
  "scriptUpdateTimer (foldl (\<lambda>s noteId. if noteExists env noteId
       then processRecallScript noteId s else s) r ids) = scriptUpdateTimer r"
  "pendingNotes (foldl (\<lambda>s noteId. if noteExists env noteId
       then processRecallScript noteId s else s) r ids) = pendingNotes r"
  "running (foldl (\<lambda>s noteId. if noteExists env noteId
       then processRecallScript noteId s else s) r ids) = running r"
  by (induction ids arbitrary: r) simp_all

lemma nextDue_in_candidates:
  assumes "nextDue r = Some c"
  shows "c \<in> set (candidates r)"
proof -
  from assms obtain x xs where x: "candidates r = x # xs" "c = arg_min_list fst (x # xs)"
    by (auto simp add: nextDue_def split: list.splits simp del: arg_min_list.simps)
  have "arg_min_list fst (x # xs) \<in> set (x # xs)"
    by (rule arg_min_list_in) simp
  with x show ?thesis by simp
qed

lemma candidates_cases:
  assumes "(t, item) \<in> set (candidates r)"
  shows "(item = DueEmbeddingTimer \<and> updateTimer r = Some t)
       \<or> (item = DueScriptTimer \<and> scriptUpdateTimer r = Some t)
       \<or> (\<exists>n ch. item = DueResolution n ch \<and> (t, n, ch) \<in> set (running r))"
  using assms by (auto simp add: candidates_def split: option.splits)

lemma outstanding_fire:
  assumes "nextDue r = Some (t, item)"
  shows "outstanding (fire env t item r) < outstanding r"
proof -
  from candidates_cases [OF nextDue_in_candidates [OF assms]]
  consider (e) "item = DueEmbeddingTimer" "updateTimer r = Some t"
    | (s) "item = DueScriptTimer" "scriptUpdateTimer r = Some t"
    | (c) n ch where "item = DueResolution n ch" "(t, n, ch) \<in> set (running r)"
    by blast
  then show ?thesis
  proof cases
    case e
    then show ?thesis
      using foldl_embeddings_fields(4)
        [of env "record_event (EmbeddingTimerFired (pendingNotes r))
                   (r\<lparr>clock := max (clock r) t, pendingNotes := [], updateTimer := None\<rparr>)"
            "pendingNotes r"]
      by (simp add: fire_def outstanding_def embeddingTimerCallback_def Let_def
          foldl_embeddings_fields(1,2,3) split: option.splits)
  next
    case s
    then show ?thesis
      by (simp add: fire_def outstanding_def scriptTimerCallback_def Let_def
          foldl_script_fields split: option.splits)
  next
    case c
    then have "length (remove1 (t, n, ch) (running r)) = length (running r) - 1"
      "0 < length (running r)"
      by (auto simp add: length_remove1)
    then have "length (remove1 (t, n, ch) (running r)) < length (running r)"
      by arith
    with c show ?thesis
      by (cases ch) (auto simp add: fire_def outstanding_def Let_def split: option.splits)
  qed
qed

lemma nextDue_None_iff: "nextDue r = None \<longleftrightarrow> candidates r = []"
  by (cases "candidates r") (simp_all add: nextDue_def del: arg_min_list.simps)

lemma outstanding_zero: "outstanding r = 0 \<Longrightarrow> nextDue r = None"
  by (auto simp add: outstanding_def nextDue_None_iff candidates_def split: option.splits)

lemma settle_complete:
  "outstanding r \<le> fuel \<Longrightarrow> nextDue (settle env fuel t r) = Some (dueTime, item) \<Longrightarrow> t < dueTime"
proof (induction fuel arbitrary: r)
  case 0
  then show ?case
    using outstanding_zero [of r] by simp
next
  case (Suc fuel)
  show ?case
  proof (cases "nextDue r")
    case None
    with Suc.prems show ?thesis by simp
  next
    case (Some c)
    obtain d i where c: "c = (d, i)" by (cases c)
    show ?thesis
    proof (cases "d \<le> t")
      case True
      have "outstanding (fire env d i r) \<le> fuel"
        using outstanding_fire [of r d i env] Some c Suc.prems(1) by simp
      from Suc.IH [OF this] Suc.prems(2) Some c True show ?thesis by simp
    next
      case False
      with Suc.prems(2) Some c show ?thesis by simp
    qed
  qed
qed

lemma nextDue_clock: "nextDue (r\<lparr>clock := c\<rparr>) = nextDue r"
  by (simp add: nextDue_def candidates_def)

lemma runUntil_complete:
  "nextDue (runUntil env t r) = Some (dueTime, item) \<Longrightarrow> t < dueTime"
  using settle_complete [of r "outstanding r" env t dueTime item]
  by (simp add: runUntil_def Let_def nextDue_clock)















lemma update_trigger:
  "run exampleEnvironment [(1000, UpdateNote 11)] initialRuntime
     = initialRuntime\<lparr>clock := 1000, pendingNotes := [11], updateTimer := Some 1300,
          pendingScriptNotes := [11], scriptUpdateTimer := Some 1300\<rparr>"
  by (simp add: initialRuntime_def runUntil_def outstanding_def updateNote_trigger_def
      updateNoteEmbeddings_def updateRecallScript_def setAdd_def Let_def)

lemma update_history:
  "history (runUntil exampleEnvironment 5000
      (run exampleEnvironment [(1000, UpdateNote 11)] initialRuntime))
     = [(1300, EmbeddingTimerFired [11]), (1300, ProcessNoteEmbeddingsCalled 11),
        (1300, ScriptTimerFired [11]), (1300, ProcessRecallScriptCalled 11),
        (3300, ProcessNoteEmbeddingsResolved 11)]"
  unfolding update_trigger
  by (simp add: initialRuntime_def runUntil_def outstanding_def nextDue_def candidates_def
      fire_def embeddingTimerCallback_def scriptTimerCallback_def processNoteEmbeddings_def
      processRecallScript_def record_event_def exampleEnvironment_def Let_def
      eval_nat_numeral)

lemma create_history:
  "history (runUntil exampleEnvironment 5000
      (run exampleEnvironment [(1000, CreateNote 11)] initialRuntime))
     = [(1000, ProcessNoteEmbeddingsCalled 11), (3000, ProcessNoteEmbeddingsResolved 11),
        (3000, ProcessRecallScriptCalled 11)]"
  by (simp add: initialRuntime_def runUntil_def outstanding_def nextDue_def candidates_def
      fire_def createNote_trigger_def processNoteEmbeddings_def
      processRecallScript_def record_event_def exampleEnvironment_def Let_def)

text \<open>
  C9 says that on every create and every update of a note the script pipeline starts
  only after the embedding pipeline of the note has run to completion. The code does so
  on create. On update it does not: an update of note 11 at time 1000, with both models
  loaded and an embedding run of two seconds, arms both timers for time 1300; there
  \<^verbatim>\<open>processRecallScript\<close> is called for the note while \<^verbatim>\<open>processNoteEmbeddings\<close>, called
  at the same time, resolves only at time 3300.
\<close>

theorem updateNote_script_starts_before_embeddings_resolve:
  "run exampleEnvironment [(1000, UpdateNote 11)] initialRuntime
     = initialRuntime\<lparr>clock := 1000, pendingNotes := [11], updateTimer := Some 1300,
          pendingScriptNotes := [11], scriptUpdateTimer := Some 1300\<rparr>
   \<and> history (runUntil exampleEnvironment 5000
        (run exampleEnvironment [(1000, UpdateNote 11)] initialRuntime))
     = [(1300, EmbeddingTimerFired [11]), (1300, ProcessNoteEmbeddingsCalled 11),
        (1300, ScriptTimerFired [11]), (1300, ProcessRecallScriptCalled 11),
        (3300, ProcessNoteEmbeddingsResolved 11)]
   \<and> history (runUntil exampleEnvironment 5000
        (run exampleEnvironment [(1000, CreateNote 11)] initialRuntime))
     = [(1000, ProcessNoteEmbeddingsCalled 11), (3000, ProcessNoteEmbeddingsResolved 11),
        (3000, ProcessRecallScriptCalled 11)]"
  by (intro conjI update_trigger update_history create_history)

end
